theory Spec2Isabelle
  imports Complex_Main "HOL-Library.Monad_Syntax"
begin

section \<open>Kinetic: session state machine, persistence and JSON cleaning\<close>

text \<open>
  The development follows \<^verbatim>\<open>src/App.tsx\<close> (the \<^verbatim>\<open>App\<close> component: view state, task list,
  handlers and persistence), \<^verbatim>\<open>src/types.ts\<close> (the data model) and the service module
  (\<^verbatim>\<open>cleanJson\<close>, \<^verbatim>\<open>synthesizeDNA\<close>, \<^verbatim>\<open>generatePlan\<close>).

  JavaScript strings are modelled as \<^typ>\<open>string\<close>; a \<^typ>\<open>char\<close> stands for a code unit below 256.
  Every call of the language-model collaborator is an input of the model: the response it gave,
  or the failure it raised. \<^verbatim>\<open>JSON.parse\<close> applied to collaborator text is a parameter of the
  functions that call it; the record kept in \<^verbatim>\<open>localStorage\<close> is represented by the JSON tree
  that its text denotes.
\<close>

subsection \<open>String primitives used by \<^verbatim>\<open>cleanJson\<close>\<close>

text \<open>\<^verbatim>\<open>String.prototype.trim\<close> removes white space and line terminators at both ends; below
  256 these are TAB, LF, VT, FF, CR, SPACE and NBSP.\<close>

definition is_ws :: "char \<Rightarrow> bool" where
  "is_ws c = (of_char c \<in> {9, 10, 11, 12, 13, 32, 160 :: nat})"

definition trim :: "string \<Rightarrow> string" where
  "trim s = rev (dropWhile is_ws (rev (dropWhile is_ws s)))"

text \<open>\<^verbatim>\<open>s.replace(/pat/g, '')\<close> for a pattern of literal characters: matches are found left to
  right, do not overlap, and the text already passed is not scanned again.\<close>

fun replaceAll :: "string \<Rightarrow> string \<Rightarrow> string" where
  "replaceAll pat [] = []"
| "replaceAll pat (c # cs) =
     (if pat \<noteq> [] \<and> take (length pat) (c # cs) = pat
      then replaceAll pat (drop (length pat) (c # cs))
      else c # replaceAll pat cs)"

text \<open>\<^verbatim>\<open>indexOf\<close> and \<^verbatim>\<open>lastIndexOf\<close> of a one-character string: the position, or \<open>-1\<close>.\<close>

definition indexOf :: "string \<Rightarrow> char \<Rightarrow> int" where
  "indexOf s c = (if c \<in> set s then int (length (takeWhile (\<lambda>x. x \<noteq> c) s)) else - 1)"

definition lastIndexOf :: "string \<Rightarrow> char \<Rightarrow> int" where
  "lastIndexOf s c =
     (if c \<in> set s then int (length s) - 1 - int (length (takeWhile (\<lambda>x. x \<noteq> c) (rev s)))
      else - 1)"

text \<open>\<^verbatim>\<open>substring(a, b)\<close> clamps both arguments to \<open>[0, length]\<close> and swaps them when the first
  is the larger.\<close>

definition substring :: "string \<Rightarrow> int \<Rightarrow> int \<Rightarrow> string" where
  "substring s a b =
     (let n = int (length s);
          a' = min (max a 0) n;
          b' = min (max b 0) n;
          lo = min a' b';
          hi = max a' b'
      in take (nat (hi - lo)) (drop (nat lo) s))"

subsection \<open>\<^verbatim>\<open>cleanJson\<close>\<close>

definition cleanJson :: "string \<Rightarrow> string" where
  "cleanJson text =
     (if text = [] then ''{}''
      else
        let cleaned = trim (replaceAll ''```'' (replaceAll ''```json'' text));
            firstBrace = indexOf cleaned CHR ''{'';
            lastBrace = lastIndexOf cleaned CHR ''}'';
            firstBracket = indexOf cleaned CHR ''['';
            lastBracket = lastIndexOf cleaned CHR '']''
        in if firstBrace \<noteq> - 1 \<and> lastBrace \<noteq> - 1 \<and> (firstBracket = - 1 \<or> firstBrace < firstBracket)
           then substring cleaned firstBrace (lastBrace + 1)
           else if firstBracket \<noteq> - 1 \<and> lastBracket \<noteq> - 1
           then substring cleaned firstBracket (lastBracket + 1)
           else cleaned)"

subsection \<open>Data model (\<^verbatim>\<open>types.ts\<close>)\<close>

datatype AppState = IDLE | DNA_EXTRACTION | DASHBOARD | WORKING | SUMMARY

datatype TaskStatus = PENDING | DRAFTING | READY | IN_PROGRESS | COMPLETED

datatype VerificationStatus = VERIFICATION_PENDING | REVIEWING | NEEDS_REVISION | APPROVED

datatype AgentType = RESEARCHER | CODER | WRITER | STRATEGIST

datatype AgentPersonality = SKEPTIC | HYPE_MAN | VC | DEFAULT

datatype ChatRole = RoleUser | RoleAi

datatype ViewMode = EDIT | PREVIEW | VISUAL

text \<open>A JavaScript \<^verbatim>\<open>number\<close>: a finite value (\<open>-0\<close> and \<open>0\<close> are one value, as for \<^verbatim>\<open>===\<close>),
  or one of the three non-finite values.\<close>

datatype jsnumber = Finite rat | NaN | PosInfinity | NegInfinity

record ProjectDNA =
  audience :: string
  problem :: string
  tone :: string
  antiGoals :: string
  stakes :: string
  rawContext :: string

record ChatMessage =
  message_id :: string
  role :: ChatRole
  message_text :: string
  timestamp :: jsnumber
  senderName :: "string option"
  personality :: "AgentPersonality option"

text \<open>What \<^verbatim>\<open>generatePlan\<close> returns per task:
  \<^verbatim>\<open>Omit<MicroTask, 'id' | 'status' | 'content' | 'chatHistory' | 'verificationStatus'>\<close>.\<close>

record TaskDescriptor =
  title :: string
  description :: string
  estimatedMinutes :: jsnumber
  agentType :: AgentType
  visualCode :: "string option"

record MicroTask = TaskDescriptor +
  task_id :: string
  status :: TaskStatus
  verificationStatus :: VerificationStatus
  content :: "string option"
  chatHistory :: "ChatMessage list"

datatype json = JNull | JBool bool | JNumber rat | JString string
  | JArray "json list" | JObject "(string \<times> json) list"

datatype error = CollaboratorError string | NoPlanGenerated | SyntaxError | TypeError

text \<open>The collaborator either raises or answers; \<^verbatim>\<open>response.text\<close> may be undefined.\<close>

datatype response = CallFailed error | Responded "string option"

text \<open>What \<^verbatim>\<open>JSON.parse\<close> gave \<^verbatim>\<open>generatePlan\<close>, as \<^verbatim>\<open>handleLaunch\<close> can use it: an array of
  descriptors, or a value that has no \<^verbatim>\<open>map\<close> method.\<close>

datatype plan_value = PlanArray "TaskDescriptor list" | PlanNotArray

text \<open>The \<^verbatim>\<open>useState\<close> cells of \<^verbatim>\<open>App\<close> that the handlers below read or write, the browser's
  \<^verbatim>\<open>localStorage\<close>, and the messages shown by \<^verbatim>\<open>alert\<close>.\<close>

record State =
  appState :: AppState
  dna :: ProjectDNA
  tasks :: "MicroTask list"
  currentTaskId :: "string option"
  editorContent :: string
  viewMode :: ViewMode
  isGenerating :: bool
  showMissionBrief :: bool
  audioEnabled :: bool
  localStorage :: "string \<rightharpoonup> json"
  alerts :: "string list"

definition emptyDNA :: ProjectDNA where
  "emptyDNA = \<lparr>audience = '''', problem = '''', tone = '''', antiGoals = '''', stakes = '''',
     rawContext = ''''\<rparr>"

definition initialState :: State where
  "initialState = \<lparr>appState = IDLE, dna = emptyDNA, tasks = [], currentTaskId = None,
     editorContent = '''', viewMode = EDIT, isGenerating = False, showMissionBrief = False,
     audioEnabled = False, localStorage = Map.empty, alerts = []\<rparr>"

text \<open>An optional string read where the code needs a string: \<^verbatim>\<open>x || ''\<close>.\<close>

definition text_of :: "string option \<Rightarrow> string" where
  "text_of t = (case t of None \<Rightarrow> '''' | Some s \<Rightarrow> s)"

text \<open>Truthiness of a \<^verbatim>\<open>string | null | undefined\<close>: false for null, undefined and \<^verbatim>\<open>''\<close>.\<close>

definition truthy :: "string option \<Rightarrow> bool" where
  "truthy v = (case v of None \<Rightarrow> False | Some s \<Rightarrow> s \<noteq> [])"

subsection \<open>Persistence: \<^verbatim>\<open>JSON.stringify({ dna, tasks })\<close> and its reading back\<close>

text \<open>\<^verbatim>\<open>JSON.stringify\<close> writes a finite number as itself and \<^verbatim>\<open>NaN\<close>, \<^verbatim>\<open>Infinity\<close> and
  \<^verbatim>\<open>-Infinity\<close> as \<^verbatim>\<open>null\<close>; a property whose value is undefined is left out; an enum member is
  its string value. The order of the properties plays no role: every read is by key.\<close>

definition json_of_number :: "jsnumber \<Rightarrow> json" where
  "json_of_number n = (case n of Finite r \<Rightarrow> JNumber r | _ \<Rightarrow> JNull)"

definition optional_property :: "string \<Rightarrow> string option \<Rightarrow> (string \<times> json) list" where
  "optional_property k v = (case v of None \<Rightarrow> [] | Some x \<Rightarrow> [(k, JString x)])"

fun TaskStatus_value :: "TaskStatus \<Rightarrow> string" where
  "TaskStatus_value PENDING = ''PENDING''"
| "TaskStatus_value DRAFTING = ''DRAFTING''"
| "TaskStatus_value READY = ''READY''"
| "TaskStatus_value IN_PROGRESS = ''IN_PROGRESS''"
| "TaskStatus_value COMPLETED = ''COMPLETED''"

fun VerificationStatus_value :: "VerificationStatus \<Rightarrow> string" where
  "VerificationStatus_value VERIFICATION_PENDING = ''PENDING''"
| "VerificationStatus_value REVIEWING = ''REVIEWING''"
| "VerificationStatus_value NEEDS_REVISION = ''NEEDS_REVISION''"
| "VerificationStatus_value APPROVED = ''APPROVED''"

fun AgentType_value :: "AgentType \<Rightarrow> string" where
  "AgentType_value RESEARCHER = ''RESEARCHER''"
| "AgentType_value CODER = ''CODER''"
| "AgentType_value WRITER = ''WRITER''"
| "AgentType_value STRATEGIST = ''STRATEGIST''"

fun AgentPersonality_value :: "AgentPersonality \<Rightarrow> string" where
  "AgentPersonality_value SKEPTIC = ''SKEPTIC''"
| "AgentPersonality_value HYPE_MAN = ''HYPE_MAN''"
| "AgentPersonality_value VC = ''VC''"
| "AgentPersonality_value DEFAULT = ''DEFAULT''"

fun ChatRole_value :: "ChatRole \<Rightarrow> string" where
  "ChatRole_value RoleUser = ''user''"
| "ChatRole_value RoleAi = ''ai''"

definition stringify_dna :: "ProjectDNA \<Rightarrow> json" where
  "stringify_dna d = JObject
     [(''audience'', JString (audience d)), (''problem'', JString (problem d)),
      (''tone'', JString (tone d)), (''antiGoals'', JString (antiGoals d)),
      (''stakes'', JString (stakes d)), (''rawContext'', JString (rawContext d))]"

definition stringify_message :: "ChatMessage \<Rightarrow> json" where
  "stringify_message m = JObject
     ([(''id'', JString (message_id m)), (''role'', JString (ChatRole_value (role m))),
       (''text'', JString (message_text m)), (''timestamp'', json_of_number (timestamp m))]
      @ optional_property ''senderName'' (senderName m)
      @ optional_property ''personality'' (map_option AgentPersonality_value (personality m)))"

definition stringify_task :: "MicroTask \<Rightarrow> json" where
  "stringify_task t = JObject
     ([(''title'', JString (title t)), (''description'', JString (description t)),
       (''estimatedMinutes'', json_of_number (estimatedMinutes t)),
       (''agentType'', JString (AgentType_value (agentType t))),
       (''id'', JString (task_id t)), (''status'', JString (TaskStatus_value (status t))),
       (''verificationStatus'', JString (VerificationStatus_value (verificationStatus t))),
       (''chatHistory'', JArray (map stringify_message (chatHistory t)))]
      @ optional_property ''visualCode'' (visualCode t)
      @ optional_property ''content'' (content t))"

definition stringify_state :: "ProjectDNA \<Rightarrow> MicroTask list \<Rightarrow> json" where
  "stringify_state d ts = JObject [(''dna'', stringify_dna d), (''tasks'', JArray (map stringify_task ts))]"

text \<open>The load effect stores \<^verbatim>\<open>data.dna\<close> and \<^verbatim>\<open>data.tasks\<close> of \<^verbatim>\<open>JSON.parse(saved)\<close> as they
  are: TypeScript's types are erased. The functions below give the typed reading of the parsed
  value: \<open>Some\<close> when every property holds a value of its declared type, \<open>None\<close> when one does
  not (\<^verbatim>\<open>null\<close> where a number is declared, a missing required property).\<close>

definition string_property :: "(string \<times> json) list \<Rightarrow> string \<Rightarrow> string option" where
  "string_property kv k = (case map_of kv k of Some (JString s) \<Rightarrow> Some s | _ \<Rightarrow> None)"

definition optional_string_property :: "(string \<times> json) list \<Rightarrow> string \<Rightarrow> string option option" where
  "optional_string_property kv k =
     (case map_of kv k of None \<Rightarrow> Some None | Some (JString s) \<Rightarrow> Some (Some s) | _ \<Rightarrow> None)"

definition number_property :: "(string \<times> json) list \<Rightarrow> string \<Rightarrow> jsnumber option" where
  "number_property kv k = (case map_of kv k of Some (JNumber r) \<Rightarrow> Some (Finite r) | _ \<Rightarrow> None)"

definition TaskStatus_of :: "string \<Rightarrow> TaskStatus option" where
  "TaskStatus_of s =
     (if s = ''PENDING'' then Some PENDING else if s = ''DRAFTING'' then Some DRAFTING
      else if s = ''READY'' then Some READY else if s = ''IN_PROGRESS'' then Some IN_PROGRESS
      else if s = ''COMPLETED'' then Some COMPLETED else None)"

definition VerificationStatus_of :: "string \<Rightarrow> VerificationStatus option" where
  "VerificationStatus_of s =
     (if s = ''PENDING'' then Some VERIFICATION_PENDING else if s = ''REVIEWING'' then Some REVIEWING
      else if s = ''NEEDS_REVISION'' then Some NEEDS_REVISION
      else if s = ''APPROVED'' then Some APPROVED else None)"

definition AgentType_of :: "string \<Rightarrow> AgentType option" where
  "AgentType_of s =
     (if s = ''RESEARCHER'' then Some RESEARCHER else if s = ''CODER'' then Some CODER
      else if s = ''WRITER'' then Some WRITER else if s = ''STRATEGIST'' then Some STRATEGIST
      else None)"

definition AgentPersonality_of :: "string \<Rightarrow> AgentPersonality option" where
  "AgentPersonality_of s =
     (if s = ''SKEPTIC'' then Some SKEPTIC else if s = ''HYPE_MAN'' then Some HYPE_MAN
      else if s = ''VC'' then Some VC else if s = ''DEFAULT'' then Some DEFAULT else None)"

definition ChatRole_of :: "string \<Rightarrow> ChatRole option" where
  "ChatRole_of s = (if s = ''user'' then Some RoleUser else if s = ''ai'' then Some RoleAi else None)"

definition optional_personality :: "string option \<Rightarrow> AgentPersonality option option" where
  "optional_personality v =
     (case v of None \<Rightarrow> Some None | Some s \<Rightarrow> map_option Some (AgentPersonality_of s))"

definition parse_dna :: "json \<Rightarrow> ProjectDNA option" where
  "parse_dna j =
     (case j of
        JObject kv \<Rightarrow> do {
          a \<leftarrow> string_property kv ''audience'';
          p \<leftarrow> string_property kv ''problem'';
          t \<leftarrow> string_property kv ''tone'';
          g \<leftarrow> string_property kv ''antiGoals'';
          k \<leftarrow> string_property kv ''stakes'';
          r \<leftarrow> string_property kv ''rawContext'';
          Some \<lparr>audience = a, problem = p, tone = t, antiGoals = g, stakes = k, rawContext = r\<rparr>
        }
      | _ \<Rightarrow> None)"

definition parse_message :: "json \<Rightarrow> ChatMessage option" where
  "parse_message j =
     (case j of
        JObject kv \<Rightarrow> do {
          i \<leftarrow> string_property kv ''id'';
          r \<leftarrow> Option.bind (string_property kv ''role'') ChatRole_of;
          t \<leftarrow> string_property kv ''text'';
          n \<leftarrow> number_property kv ''timestamp'';
          s \<leftarrow> optional_string_property kv ''senderName'';
          p \<leftarrow> Option.bind (optional_string_property kv ''personality'') optional_personality;
          Some \<lparr>message_id = i, role = r, message_text = t, timestamp = n, senderName = s,
                 personality = p\<rparr>
        }
      | _ \<Rightarrow> None)"

definition parse_messages :: "json option \<Rightarrow> ChatMessage list option" where
  "parse_messages v = (case v of Some (JArray ms) \<Rightarrow> those (map parse_message ms) | _ \<Rightarrow> None)"

definition parse_task :: "json \<Rightarrow> MicroTask option" where
  "parse_task j =
     (case j of
        JObject kv \<Rightarrow> do {
          ti \<leftarrow> string_property kv ''title'';
          de \<leftarrow> string_property kv ''description'';
          em \<leftarrow> number_property kv ''estimatedMinutes'';
          ag \<leftarrow> Option.bind (string_property kv ''agentType'') AgentType_of;
          vc \<leftarrow> optional_string_property kv ''visualCode'';
          i \<leftarrow> string_property kv ''id'';
          st \<leftarrow> Option.bind (string_property kv ''status'') TaskStatus_of;
          vs \<leftarrow> Option.bind (string_property kv ''verificationStatus'') VerificationStatus_of;
          co \<leftarrow> optional_string_property kv ''content'';
          ch \<leftarrow> parse_messages (map_of kv ''chatHistory'');
          Some \<lparr>title = ti, description = de, estimatedMinutes = em, agentType = ag,
                 visualCode = vc, task_id = i, status = st, verificationStatus = vs,
                 content = co, chatHistory = ch\<rparr>
        }
      | _ \<Rightarrow> None)"

definition parse_tasks :: "json option \<Rightarrow> MicroTask list option" where
  "parse_tasks v = (case v of Some (JArray ts) \<Rightarrow> those (map parse_task ts) | _ \<Rightarrow> None)"

definition parse_state :: "json \<Rightarrow> (ProjectDNA \<times> MicroTask list) option" where
  "parse_state j =
     (case j of
        JObject kv \<Rightarrow> do {
          d \<leftarrow> Option.bind (map_of kv ''dna'') parse_dna;
          ts \<leftarrow> parse_tasks (map_of kv ''tasks'');
          Some (d, ts)
        }
      | _ \<Rightarrow> None)"

fun is_finite :: "jsnumber \<Rightarrow> bool" where
  "is_finite (Finite r) = True"
| "is_finite NaN = False"
| "is_finite PosInfinity = False"
| "is_finite NegInfinity = False"

definition finite_message :: "ChatMessage \<Rightarrow> bool" where
  "finite_message m = is_finite (timestamp m)"

definition finite_task :: "MicroTask \<Rightarrow> bool" where
  "finite_task t = (is_finite (estimatedMinutes t) \<and> list_all finite_message (chatHistory t))"

text \<open>\<^verbatim>\<open>localStorage.setItem('kinetic_state', JSON.stringify({ dna, tasks }))\<close>.\<close>

definition persist :: "ProjectDNA \<Rightarrow> MicroTask list \<Rightarrow> (string \<rightharpoonup> json) \<Rightarrow> (string \<rightharpoonup> json)" where
  "persist d ts store = store(''kinetic_state'' \<mapsto> stringify_state d ts)"

subsection \<open>Plan generation and task materialization\<close>

text \<open>\<^verbatim>\<open>generatePlan\<close>: the collaborator call may raise; an answer without text raises
  \<^verbatim>\<open>Error("No plan generated")\<close>; otherwise the result is \<^verbatim>\<open>JSON.parse(cleanJson(response.text))\<close>,
  which may raise. The \<^verbatim>\<open>catch\<close> block logs and throws the same error again.\<close>

definition generatePlan :: "(string \<Rightarrow> error + plan_value) \<Rightarrow> response \<Rightarrow> error + plan_value" where
  "generatePlan JSON_parse resp =
     (case resp of
        CallFailed e \<Rightarrow> Inl e
      | Responded t \<Rightarrow>
          if \<not> truthy t then Inl NoPlanGenerated
          else JSON_parse (cleanJson (text_of t)))"

text \<open>The body of \<^verbatim>\<open>plan.map(p => ({ ...p, id: crypto.randomUUID(), status: TaskStatus.PENDING,
  verificationStatus: VerificationStatus.PENDING, chatHistory: [], agentType: p.agentType }))\<close>.\<close>

definition materializeTask :: "TaskDescriptor \<Rightarrow> string \<Rightarrow> MicroTask" where
  "materializeTask p uuid =
     \<lparr>title = title p, description = description p, estimatedMinutes = estimatedMinutes p,
      agentType = agentType p, visualCode = visualCode p,
      task_id = uuid, status = PENDING, verificationStatus = VERIFICATION_PENDING,
      content = None, chatHistory = []\<rparr>"

text \<open>\<open>randomUUID i\<close> is what the \<open>i\<close>-th call of \<^verbatim>\<open>crypto.randomUUID()\<close> in the \<^verbatim>\<open>map\<close>
  returned.\<close>

definition materialize :: "(nat \<Rightarrow> string) \<Rightarrow> TaskDescriptor list \<Rightarrow> MicroTask list" where
  "materialize randomUUID plan =
     map (\<lambda>(i, p). materializeTask p (randomUUID i)) (enumerate 0 plan)"

subsection \<open>Handlers of \<^verbatim>\<open>App\<close>\<close>

text \<open>\<^verbatim>\<open>ts.map(t => t.id === currentTaskId ? { ...t, content: editorContent } : t)\<close>.\<close>

definition flushContent :: "string option \<Rightarrow> string \<Rightarrow> MicroTask list \<Rightarrow> MicroTask list" where
  "flushContent ptr ed ts =
     map (\<lambda>t. if Some (task_id t) = ptr then t\<lparr>content := Some ed\<rparr> else t) ts"

text \<open>\<^verbatim>\<open>ts.map(t => t.id === currentTaskId ? { ...t, content: editorContent,
  status: TaskStatus.COMPLETED } : t)\<close>.\<close>

definition completeContent :: "string option \<Rightarrow> string \<Rightarrow> MicroTask list \<Rightarrow> MicroTask list" where
  "completeContent ptr ed ts =
     map (\<lambda>t. if Some (task_id t) = ptr then t\<lparr>content := Some ed, status := COMPLETED\<rparr> else t) ts"

text \<open>\<^verbatim>\<open>prev.map(t => t.id === taskId ? { ...t, content: draft, status: TaskStatus.IN_PROGRESS } : t)\<close>.\<close>

definition applyDraft :: "string \<Rightarrow> string \<Rightarrow> MicroTask list \<Rightarrow> MicroTask list" where
  "applyDraft taskId draft ts =
     map (\<lambda>t. if task_id t = taskId then t\<lparr>content := Some draft, status := IN_PROGRESS\<rparr> else t) ts"

text \<open>\<^verbatim>\<open>enterTask(taskId, currentTaskList = tasks)\<close>. The argument \<open>draft\<close> is what awaiting
  \<^verbatim>\<open>draftTaskContent\<close> gave: the drafted text, or a raised error. The call is taken as one step:
  the draft arrives before any other handler runs.\<close>

definition enterTask :: "string \<Rightarrow> MicroTask list \<Rightarrow> error + string \<Rightarrow> State \<Rightarrow> State" where
  "enterTask taskId currentTaskList draft s =
     (let updatedTasks = flushContent (currentTaskId s) (editorContent s) currentTaskList;
          s1 = (if truthy (currentTaskId s) then s\<lparr>tasks := updatedTasks\<rparr> else s);
          currentTaskList1 = (if truthy (currentTaskId s) then updatedTasks else currentTaskList)
      in case find (\<lambda>t. task_id t = taskId) currentTaskList1 of
           None \<Rightarrow> s1
         | Some task \<Rightarrow>
             (let s2 = s1\<lparr>currentTaskId := Some taskId, editorContent := text_of (content task),
                          appState := WORKING, viewMode := EDIT, audioEnabled := True\<rparr>
              in if \<not> truthy (content task)
                 then (case draft of
                         Inr d \<Rightarrow>
                           s2\<lparr>editorContent := d, tasks := applyDraft taskId d (tasks s2),
                              isGenerating := False\<rparr>
                       | Inl e \<Rightarrow>
                           s2\<lparr>editorContent :=
                                ''// Error generating draft. Please use the chat to request a new one.'',
                              isGenerating := False\<rparr>)
                 else s2))"

text \<open>\<^verbatim>\<open>handleExitTask\<close>: first the \<^verbatim>\<open>setTasks\<close> statement, whose updater also writes the
  storage, then \<^verbatim>\<open>setAppState(AppState.DASHBOARD)\<close>.\<close>

definition handleExitTask_setTasks :: "State \<Rightarrow> State" where
  "handleExitTask_setTasks s =
     (if truthy (currentTaskId s)
      then (let updated = flushContent (currentTaskId s) (editorContent s) (tasks s)
            in s\<lparr>tasks := updated, localStorage := persist (dna s) updated (localStorage s)\<rparr>)
      else s)"

definition handleExitTask :: "State \<Rightarrow> State" where
  "handleExitTask s = (handleExitTask_setTasks s)\<lparr>appState := DASHBOARD\<rparr>"

text \<open>\<^verbatim>\<open>handleCompleteTask\<close>: both statements are inside \<^verbatim>\<open>if (currentTaskId)\<close>.\<close>

definition handleCompleteTask_setTasks :: "State \<Rightarrow> State" where
  "handleCompleteTask_setTasks s =
     (let updated = completeContent (currentTaskId s) (editorContent s) (tasks s)
      in s\<lparr>tasks := updated, localStorage := persist (dna s) updated (localStorage s)\<rparr>)"

definition handleCompleteTask :: "State \<Rightarrow> State" where
  "handleCompleteTask s =
     (if truthy (currentTaskId s)
      then (handleCompleteTask_setTasks s)\<lparr>appState := DASHBOARD\<rparr>
      else s)"

text \<open>The autosave effect, when its one-second timer fires in the render that started it.\<close>

definition autosave :: "State \<Rightarrow> State" where
  "autosave s =
     (if appState s = WORKING \<and> truthy (currentTaskId s)
      then (let updated = flushContent (currentTaskId s) (editorContent s) (tasks s)
            in s\<lparr>tasks := updated, localStorage := persist (dna s) updated (localStorage s)\<rparr>)
      else s)"

text \<open>\<^verbatim>\<open>resetApp\<close>; \<open>confirmed\<close> is what \<^verbatim>\<open>window.confirm\<close> returned. The audio engine that
  the handler also stops is not part of the state.\<close>

definition resetApp :: "bool \<Rightarrow> State \<Rightarrow> State" where
  "resetApp confirmed s =
     (if confirmed
      then s\<lparr>localStorage := (localStorage s)(''kinetic_state'' := None), appState := IDLE,
             dna := emptyDNA, tasks := [], currentTaskId := None, editorContent := ''''\<rparr>
      else s)"

text \<open>The \<^verbatim>\<open>catch\<close> and \<^verbatim>\<open>finally\<close> blocks of \<^verbatim>\<open>handleLaunch\<close>.\<close>

definition launchFailed :: "State \<Rightarrow> State" where
  "launchFailed s =
     s\<lparr>alerts := alerts s @ [''Mission Generation Failed. Please Retry.''], isGenerating := False\<rparr>"

text \<open>\<^verbatim>\<open>handleLaunch\<close>. A parsed value that is no array makes \<^verbatim>\<open>plan.map\<close> raise inside the
  \<^verbatim>\<open>try\<close>. The delayed \<^verbatim>\<open>enterTask(newTasks[0].id, newTasks)\<close> runs with the state cells of the
  render that launched it, changed by the \<^verbatim>\<open>setTasks\<close> and the \<^verbatim>\<open>finally\<close> only.\<close>

definition handleLaunch ::
  "(string \<Rightarrow> error + plan_value) \<Rightarrow> response \<Rightarrow> (nat \<Rightarrow> string) \<Rightarrow> error + string \<Rightarrow> State \<Rightarrow> State" where
  "handleLaunch JSON_parse resp randomUUID draft s =
     (let s1 = s\<lparr>isGenerating := True\<rparr>
      in case generatePlan JSON_parse resp of
           Inl e \<Rightarrow> launchFailed s1
         | Inr PlanNotArray \<Rightarrow> launchFailed s1
         | Inr (PlanArray plan) \<Rightarrow>
             (let newTasks = materialize randomUUID plan;
                  s2 = s1\<lparr>tasks := newTasks, showMissionBrief := False, isGenerating := False\<rparr>
              in case newTasks of
                   [] \<Rightarrow> s2\<lparr>appState := DASHBOARD\<rparr>
                 | t # rest \<Rightarrow> enterTask (task_id t) newTasks draft s2))"

text \<open>The load effect at start-up. \<open>None\<close>: the stored value does not have the declared types
  (or has no \<^verbatim>\<open>tasks\<close> array, where \<^verbatim>\<open>data.tasks.length\<close> raises).\<close>

definition loadSaved :: "State \<Rightarrow> State option" where
  "loadSaved s =
     (case localStorage s ''kinetic_state'' of
        None \<Rightarrow> Some s
      | Some saved \<Rightarrow>
          (case parse_state saved of
             None \<Rightarrow> None
           | Some (d, ts) \<Rightarrow>
               Some (s\<lparr>dna := d, tasks := ts,
                       appState := (if ts \<noteq> [] then DASHBOARD else appState s)\<rparr>)))"

subsection \<open>Runs of the application\<close>

datatype operation =
    EnterTask string "error + string"
  | ExitTask
  | CompleteTask
  | Launch "string \<Rightarrow> error + plan_value" response "nat \<Rightarrow> string" "error + string"
  | Reset bool
  | Edit string
  | Autosave

fun apply_op :: "operation \<Rightarrow> State \<Rightarrow> State" where
  "apply_op (EnterTask taskId draft) s = enterTask taskId (tasks s) draft s"
| "apply_op ExitTask s = handleExitTask s"
| "apply_op CompleteTask s = handleCompleteTask s"
| "apply_op (Launch JSON_parse resp randomUUID draft) s = handleLaunch JSON_parse resp randomUUID draft s"
| "apply_op (Reset confirmed) s = resetApp confirmed s"
| "apply_op (Edit txt) s = s\<lparr>editorContent := txt\<rparr>"
| "apply_op Autosave s = autosave s"

definition run :: "operation list \<Rightarrow> State \<Rightarrow> State" where
  "run ops s = foldl (\<lambda>st op. apply_op op st) s ops"



subsection \<open>DNA synthesis\<close>

text \<open>The property key of an array index: its decimal digits.\<close>

definition digit_char :: "nat \<Rightarrow> char" where
  "digit_char d = char_of (of_char CHR ''0'' + d)"

function index_key :: "nat \<Rightarrow> string" where
  "index_key n =
     (if 10 \<le> n then index_key (n div 10) @ [digit_char (n mod 10)] else [digit_char n])"
  by pat_completeness auto
termination
  by (relation "measure (\<lambda>n. n)") auto

text \<open>The own enumerable properties that \<^verbatim>\<open>{ ...parsed }\<close> copies: those of an object, the
  indexed elements of an array or of a string, none for another value.\<close>

definition spread :: "json \<Rightarrow> (string \<times> json) list" where
  "spread v =
     (case v of
        JObject kv \<Rightarrow> kv
      | JArray xs \<Rightarrow> map (\<lambda>(i, x). (index_key i, x)) (enumerate 0 xs)
      | JString cs \<Rightarrow> map (\<lambda>(i, c). (index_key i, JString [c])) (enumerate 0 cs)
      | _ \<Rightarrow> [])"

text \<open>Writing a property of an object literal: the value of an existing key is replaced, a new
  key is added.\<close>

fun set_property :: "(string \<times> json) list \<Rightarrow> string \<Rightarrow> json \<Rightarrow> (string \<times> json) list" where
  "set_property [] k v = [(k, v)]"
| "set_property ((k', v') # kv) k v =
     (if k' = k then (k, v) # kv else (k', v') # set_property kv k v)"

text \<open>The object returned by the \<^verbatim>\<open>catch\<close> block of \<^verbatim>\<open>synthesizeDNA\<close>.\<close>

definition fallbackDNA :: "string \<Rightarrow> (string \<times> json) list" where
  "fallbackDNA raw =
     [(''audience'', JString ''General Audience''), (''problem'', JString ''Undefined Problem''),
      (''tone'', JString ''Professional''), (''antiGoals'', JString ''Generic content''),
      (''stakes'', JString ''High''), (''rawContext'', JString raw)]"

text \<open>\<^verbatim>\<open>synthesizeDNA(history, rawContext)\<close>. The transcript only enters the prompt; the answer
  is \<open>resp\<close>. The result is the JavaScript object itself, since \<^verbatim>\<open>{ ...parsed, rawContext }\<close>
  has whatever properties the parsed value has.\<close>

definition synthesizeDNA ::
  "(string \<Rightarrow> error + json) \<Rightarrow> response \<Rightarrow> (string \<times> string) list \<Rightarrow> string \<Rightarrow> (string \<times> json) list" where
  "synthesizeDNA JSON_parse resp history raw =
     (case resp of
        CallFailed e \<Rightarrow> fallbackDNA raw
      | Responded t \<Rightarrow>
          (case JSON_parse (cleanJson (if truthy t then text_of t else ''{}'')) of
             Inl e \<Rightarrow> fallbackDNA raw
           | Inr parsed \<Rightarrow> set_property (spread parsed) ''rawContext'' (JString raw)))"

text \<open>A property that holds a non-empty string.\<close>

definition nonempty_property :: "(string \<times> json) list \<Rightarrow> string \<Rightarrow> bool" where
  "nonempty_property obj k = (case map_of obj k of Some (JString s) \<Rightarrow> s \<noteq> [] | _ \<Rightarrow> False)"

subsection \<open>Properties of runs that the theorems speak about\<close>

text \<open>The ids of the tasks that are in progress.\<close>

definition in_progress_ids :: "MicroTask list \<Rightarrow> string set" where
  "in_progress_ids ts = set (map task_id (filter (\<lambda>t. status t = IN_PROGRESS) ts))"


subsection \<open>Concrete inputs\<close>

text \<open>A collaborator answer with a plan of two tasks, the value \<^verbatim>\<open>JSON.parse\<close> gives for that
  text (any other text met below is not JSON), and the ids drawn for the two tasks.\<close>

definition two_task_text :: string where
  "two_task_text =
     ''[{\"title\":\"A\",\"description\":\"a\",\"estimatedMinutes\":30,\"agentType\":\"WRITER\"},'' @
     ''{\"title\":\"B\",\"description\":\"b\",\"estimatedMinutes\":45,\"agentType\":\"CODER\"}]''"

definition two_task_plan :: "TaskDescriptor list" where
  "two_task_plan =
     [\<lparr>title = ''A'', description = ''a'', estimatedMinutes = Finite 30, agentType = WRITER,
       visualCode = None\<rparr>,
      \<lparr>title = ''B'', description = ''b'', estimatedMinutes = Finite 45, agentType = CODER,
       visualCode = None\<rparr>]"

definition two_task_parse :: "string \<Rightarrow> error + plan_value" where
  "two_task_parse txt = (if txt = two_task_text then Inr (PlanArray two_task_plan) else Inl SyntaxError)"

definition two_uuids :: "nat \<Rightarrow> string" where
  "two_uuids i = (if i = 0 then ''a'' else ''b'')"

definition two_task_launch :: operation where
  "two_task_launch = Launch two_task_parse (Responded (Some two_task_text)) two_uuids (Inr ''draft a'')"

text \<open>An answer whose number overflows: \<^verbatim>\<open>JSON.parse\<close> reads \<^verbatim>\<open>1e999\<close> as \<^verbatim>\<open>Infinity\<close>.\<close>

definition overflow_text :: string where
  "overflow_text =
     ''[{\"title\":\"A\",\"description\":\"a\",\"estimatedMinutes\":1e999,\"agentType\":\"WRITER\"}]''"

definition overflow_plan :: "TaskDescriptor list" where
  "overflow_plan =
     [\<lparr>title = ''A'', description = ''a'', estimatedMinutes = PosInfinity, agentType = WRITER,
       visualCode = None\<rparr>]"

definition overflow_parse :: "string \<Rightarrow> error + plan_value" where
  "overflow_parse txt = (if txt = overflow_text then Inr (PlanArray overflow_plan) else Inl SyntaxError)"

definition overflow_launch :: operation where
  "overflow_launch = Launch overflow_parse (Responded (Some overflow_text)) two_uuids (Inr ''draft a'')"



text \<open>\<^verbatim>\<open>JSON.parse\<close> on the text \<^verbatim>\<open>{}\<close>, which denotes the empty object; the other texts it is
  applied to below are not JSON.\<close>

definition parse_empty_object :: "string \<Rightarrow> error + json" where
  "parse_empty_object txt = (if txt = ''{}'' then Inr (JObject []) else Inl SyntaxError)"

definition three_answers :: "(string \<times> string) list" where
  "three_answers =
     [(''What is the core problem you are solving?'', ''Slow onboarding''),
      (''Who loses time?'', ''New hires''),
      (''What is the biggest risk?'', ''Nobody reads the docs'')]"

section \<open>Lemmas and theorems\<close>

subsection \<open>\<^verbatim>\<open>cleanJson\<close>\<close>

lemma set_replaceAll: "set (replaceAll pat s) \<subseteq> set s"
proof (induction pat s rule: replaceAll.induct)
  case (1 pat)
  show ?case by simp
next
  case (2 pat c cs)
  show ?case
  proof (cases "pat \<noteq> [] \<and> take (length pat) (c # cs) = pat")
    case True
    then have "set (replaceAll pat (c # cs)) = set (replaceAll pat (drop (length pat) (c # cs)))"
      by simp
    also have "\<dots> \<subseteq> set (drop (length pat) (c # cs))"
      using 2(1) True by blast
    also have "\<dots> \<subseteq> set (c # cs)"
      by (rule set_drop_subset)
    finally show ?thesis .
  next
    case False
    then have "replaceAll pat (c # cs) = c # replaceAll pat cs"
      by auto
    then show ?thesis
      using 2(2) False by auto
  qed
qed

lemma set_trim: "set (trim s) \<subseteq> set s"
proof -
  have "set (trim s) = set (dropWhile is_ws (rev (dropWhile is_ws s)))"
    by (simp add: trim_def)
  also have "\<dots> \<subseteq> set (rev (dropWhile is_ws s))"
    by (auto dest: set_dropWhileD)
  also have "\<dots> \<subseteq> set s"
    by (auto dest: set_dropWhileD)
  finally show ?thesis .
qed

lemma set_cleaned:
  "set (trim (replaceAll ''```'' (replaceAll ''```json'' text))) \<subseteq> set text"
  using set_trim set_replaceAll by (meson subset_trans)

lemma takeWhile_neq_append:
  "c \<notin> set xs \<Longrightarrow> takeWhile (\<lambda>x. x \<noteq> c) (xs @ ys) = xs @ takeWhile (\<lambda>x. x \<noteq> c) ys"
  by (induction xs) auto

lemma indexOf_absent: "c \<notin> set s \<Longrightarrow> indexOf s c = - 1"
  by (simp add: indexOf_def)

lemma indexOf_first: "c \<notin> set pre \<Longrightarrow> indexOf (pre @ c # rest) c = int (length pre)"
  by (simp add: indexOf_def takeWhile_neq_append)

lemma indexOf_later:
  assumes "c \<notin> set pre" and "d \<noteq> c"
  shows "indexOf (pre @ d # rest) c = - 1 \<or> int (length pre) < indexOf (pre @ d # rest) c"
  using assms by (auto simp add: indexOf_def takeWhile_neq_append)

lemma lastIndexOf_last:
  "c \<notin> set post \<Longrightarrow> lastIndexOf (pre @ c # post) c = int (length pre)"
  by (simp add: lastIndexOf_def takeWhile_neq_append)

lemma substring_middle:
  "substring (pre @ mid @ post) (int (length pre)) (int (length pre) + int (length mid)) = mid"
proof -
  have "take (length mid) (drop (length pre) (pre @ mid @ post)) = mid"
    by simp
  then show ?thesis
    by (simp add: substring_def Let_def)
qed

text \<open>
  Claim C10. \<^verbatim>\<open>cleanJson\<close> is a total function of its input string (it is defined by terminating
  recursion over the text). For the empty string it returns exactly \<^verbatim>\<open>{}\<close>. For a non-empty
  input that contains neither \<^verbatim>\<open>{\<close> nor \<^verbatim>\<open>[\<close> it returns the input with every
  \<^verbatim>\<open>```json\<close> and then every \<^verbatim>\<open>```\<close> removed and the surrounding white space trimmed.
\<close>

theorem cleanJson_without_brackets:
  "cleanJson [] = ''{}'' \<and>
   (text \<noteq> [] \<and> CHR ''{'' \<notin> set text \<and> CHR ''['' \<notin> set text \<longrightarrow>
      cleanJson text = trim (replaceAll ''```'' (replaceAll ''```json'' text)))"
proof (intro conjI impI)
  show "cleanJson [] = ''{}''"
    by (simp add: cleanJson_def)
next
  assume a: "text \<noteq> [] \<and> CHR ''{'' \<notin> set text \<and> CHR ''['' \<notin> set text"
  let ?c = "trim (replaceAll ''```'' (replaceAll ''```json'' text))"
  have "indexOf ?c CHR ''{'' = - 1" and "indexOf ?c CHR ''['' = - 1"
    using a set_cleaned [of "text"] by (auto intro!: indexOf_absent)
  then show "cleanJson text = ?c"
    using a by (simp add: cleanJson_def Let_def)
qed

text \<open>The theorem at a fenced answer without braces or brackets.\<close>

theorem cleanJson_without_brackets_witness:
  "''```json no plan today ``` '' \<noteq> []
   \<and> CHR ''{'' \<notin> set ''```json no plan today ``` ''
   \<and> CHR ''['' \<notin> set ''```json no plan today ``` ''
   \<and> cleanJson ''```json no plan today ``` '' = ''no plan today''"
  using cleanJson_without_brackets [of "''```json no plan today ``` ''"]
  by (simp add: trim_def is_ws_def)

text \<open>
  Claim C2, as amended. Let the fence-stripped, trimmed text be \<open>pre @ opn # body @ cls # post\<close>,
  where \<open>opn\<close>, \<open>cls\<close> are \<^verbatim>\<open>{\<close>, \<^verbatim>\<open>}\<close> or \<^verbatim>\<open>[\<close>, \<^verbatim>\<open>]\<close>, the text \<open>pre\<close> before the opener contains
  neither \<^verbatim>\<open>{\<close> nor \<^verbatim>\<open>[\<close>, and the text \<open>post\<close> after the closer does not contain the closer.
  Then \<^verbatim>\<open>cleanJson\<close> returns exactly \<open>opn # body @ [cls]\<close>: the substring from the first opening
  brace or bracket to the last occurrence of its closer. When the prose around a JSON object
  has no brace before the object, no bracket before it and no closing brace after it, the
  result is therefore the object itself, which parses because the object does. Nothing is
  promised when the closer is missing or when the prose itself contains braces or brackets.
\<close>

theorem cleanJson_bounded_region:
  assumes shape: "trim (replaceAll ''```'' (replaceAll ''```json'' text)) = pre @ opn # body @ cls # post"
    and pair: "(opn = CHR ''{'' \<and> cls = CHR ''}'') \<or> (opn = CHR ''['' \<and> cls = CHR '']'')"
    and pre_brace: "CHR ''{'' \<notin> set pre"
    and pre_bracket: "CHR ''['' \<notin> set pre"
    and post_close: "cls \<notin> set post"
  shows "cleanJson text = opn # body @ [cls]"
proof -
  let ?c = "pre @ opn # body @ cls # post"
  let ?mid = "opn # body @ [cls]"
  have nonempty: "text \<noteq> []"
    using shape by (auto simp add: trim_def)
  have c_mid: "?c = pre @ ?mid @ post"
    by simp
  have c_last: "?c = (pre @ opn # body) @ cls # post"
    by simp
  have last_cls: "lastIndexOf ?c cls = int (length pre) + int (length ?mid) - 1"
    unfolding c_last using post_close by (subst lastIndexOf_last) auto
  have cut: "substring ?c (int (length pre)) (int (length pre) + int (length ?mid)) = ?mid"
    unfolding c_mid by (rule substring_middle)
  from pair show ?thesis
  proof
    assume p: "opn = CHR ''{'' \<and> cls = CHR ''}''"
    have fb: "indexOf ?c CHR ''{'' = int (length pre)"
      using p pre_brace by (simp add: indexOf_first)
    have fk: "indexOf ?c CHR ''['' = - 1 \<or> int (length pre) < indexOf ?c CHR ''[''"
      using p pre_bracket by (intro indexOf_later) auto
    have lb: "lastIndexOf ?c CHR ''}'' = int (length pre) + int (length ?mid) - 1"
      using last_cls p by simp
    have "cleanJson text = substring ?c (int (length pre)) (int (length pre) + int (length ?mid))"
      using nonempty fk by (auto simp add: cleanJson_def shape Let_def fb lb add_ac)
    then show ?thesis
      using cut by simp
  next
    assume p: "opn = CHR ''['' \<and> cls = CHR '']''"
    have fk: "indexOf ?c CHR ''['' = int (length pre)"
      using p pre_bracket by (simp add: indexOf_first)
    have fb: "indexOf ?c CHR ''{'' = - 1 \<or> int (length pre) < indexOf ?c CHR ''{''"
      using p pre_brace by (intro indexOf_later) auto
    have lk: "lastIndexOf ?c CHR '']'' = int (length pre) + int (length ?mid) - 1"
      using last_cls p by simp
    have "cleanJson text = substring ?c (int (length pre)) (int (length pre) + int (length ?mid))"
      using nonempty fb by (auto simp add: cleanJson_def shape Let_def fk lk add_ac)
    then show ?thesis
      using cut by simp
  qed
qed

text \<open>The theorem at a fenced object between two pieces of prose.\<close>

theorem cleanJson_bounded_region_witness:
  "cleanJson ''Sure! ```json {\"a\": [1]} ``` Done.'' = ''{\"a\": [1]}''"
  using cleanJson_bounded_region [of "''Sure! ```json {\"a\": [1]} ``` Done.''" "''Sure!  ''"
      "CHR ''{''" "''\"a\": [1]''" "CHR ''}''" "''  Done.''"]
  by (simp add: trim_def is_ws_def)

text \<open>
  Claim C2 as stated fails. In \<^verbatim>\<open>[x {}\<close> a bracket precedes the object \<^verbatim>\<open>{}\<close>, and the result
  is the whole text: it starts with \<^verbatim>\<open>[\<close>, ends with \<^verbatim>\<open>}\<close>, is not bounded by a \<^verbatim>\<open>]\<close>, and is not
  JSON. In \<^verbatim>\<open>Use {x}: {"a":1}\<close> the result is bounded by the first \<^verbatim>\<open>{\<close> and the last \<^verbatim>\<open>}\<close>, but it
  starts with \<^verbatim>\<open>{x}\<close> and is not JSON either.
\<close>

theorem cleanJson_result_not_json:
  "cleanJson ''[x {}'' = ''[x {}''
   \<and> hd (cleanJson ''[x {}'') = CHR ''[''
   \<and> last (cleanJson ''[x {}'') \<noteq> CHR '']''
   \<and> cleanJson ''Use {x}: {\"a\":1}'' = ''{x}: {\"a\":1}''"
  by (simp add: cleanJson_def trim_def is_ws_def indexOf_def lastIndexOf_def substring_def)

subsection \<open>Entering, leaving and completing a task; reset\<close>

lemma find_flushContent:
  "find (\<lambda>t. task_id t = k) (flushContent p e ts) = None \<longleftrightarrow> find (\<lambda>t. task_id t = k) ts = None"
  by (induction ts) (auto simp add: flushContent_def)

text \<open>
  Claim C9. When \<^verbatim>\<open>enterTask\<close> is called (with the default task list) for an id that no task
  has, the view state, the current-task pointer and the editor content stay as they were. The
  resulting state is the old one, except that, when the pointer is set, the task it names has
  its content replaced by the editor content.
\<close>

theorem enterTask_unknown_id:
  assumes "taskId \<notin> task_id ` set (tasks s)"
  shows "enterTask taskId (tasks s) draft s =
           (if truthy (currentTaskId s)
            then s\<lparr>tasks := flushContent (currentTaskId s) (editorContent s) (tasks s)\<rparr>
            else s)
         \<and> appState (enterTask taskId (tasks s) draft s) = appState s
         \<and> currentTaskId (enterTask taskId (tasks s) draft s) = currentTaskId s
         \<and> editorContent (enterTask taskId (tasks s) draft s) = editorContent s"
proof -
  have nf: "find (\<lambda>t. task_id t = taskId) (tasks s) = None"
    using assms by (auto simp add: find_None_iff)
  then have nf': "find (\<lambda>t. task_id t = taskId)
                    (flushContent (currentTaskId s) (editorContent s) (tasks s)) = None"
    by (simp add: find_flushContent)
  have eq: "enterTask taskId (tasks s) draft s =
           (if truthy (currentTaskId s)
            then s\<lparr>tasks := flushContent (currentTaskId s) (editorContent s) (tasks s)\<rparr>
            else s)"
    using nf nf' by (simp add: enterTask_def Let_def)
  show ?thesis
    unfolding eq by simp
qed


text \<open>
  Claim C6. A confirmed reset removes the key \<^verbatim>\<open>kinetic_state\<close> from the storage, sets the view
  state to Idle, empties the task list, clears the current-task pointer and restores the DNA
  with six empty fields (the editor content is emptied as well); a declined reset changes
  nothing.
\<close>

theorem resetApp_clears:
  "resetApp True s =
     s\<lparr>localStorage := (localStorage s)(''kinetic_state'' := None), appState := IDLE,
       dna := emptyDNA, tasks := [], currentTaskId := None, editorContent := ''''\<rparr>
   \<and> localStorage (resetApp True s) ''kinetic_state'' = None
   \<and> appState (resetApp True s) = IDLE
   \<and> tasks (resetApp True s) = []
   \<and> currentTaskId (resetApp True s) = None
   \<and> dna (resetApp True s) =
        \<lparr>audience = '''', problem = '''', tone = '''', antiGoals = '''', stakes = '''', rawContext = ''''\<rparr>
   \<and> resetApp False s = s"
  by (simp add: resetApp_def emptyDNA_def)

subsection \<open>Plan generation and materialization\<close>






text \<open>
  Claim C5. When the collaborator call raises, when the answer has no text, or when
  \<^verbatim>\<open>JSON.parse\<close> raises on the cleaned text, \<^verbatim>\<open>generatePlan\<close> returns that error to its caller and no
  plan. Whenever \<^verbatim>\<open>generatePlan\<close> returns an error, \<^verbatim>\<open>handleLaunch\<close> leaves the task list as it was
  and shows the alert \<^verbatim>\<open>Mission Generation Failed. Please Retry.\<close>; the only other change is that
  the generating flag is off.
\<close>

theorem plan_failure_propagates:
  "generatePlan JSON_parse (CallFailed e) = Inl e
   \<and> (truthy t \<and> JSON_parse (cleanJson (text_of t)) = Inl e \<longrightarrow>
        generatePlan JSON_parse (Responded t) = Inl e)
   \<and> (\<not> truthy t \<longrightarrow> generatePlan JSON_parse (Responded t) = Inl NoPlanGenerated)
   \<and> (generatePlan JSON_parse resp = Inl e' \<longrightarrow>
        handleLaunch JSON_parse resp randomUUID draft s =
          s\<lparr>alerts := alerts s @ [''Mission Generation Failed. Please Retry.''], isGenerating := False\<rparr>
        \<and> tasks (handleLaunch JSON_parse resp randomUUID draft s) = tasks s
        \<and> alerts (handleLaunch JSON_parse resp randomUUID draft s) =
            alerts s @ [''Mission Generation Failed. Please Retry.''])"
  by (simp add: generatePlan_def handleLaunch_def launchFailed_def)

subsection \<open>Persistence\<close>

lemma TaskStatus_roundtrip: "TaskStatus_of (TaskStatus_value x) = Some x"
  by (cases x) (simp_all add: TaskStatus_of_def)

lemma VerificationStatus_roundtrip: "VerificationStatus_of (VerificationStatus_value x) = Some x"
  by (cases x) (simp_all add: VerificationStatus_of_def)

lemma AgentType_roundtrip: "AgentType_of (AgentType_value x) = Some x"
  by (cases x) (simp_all add: AgentType_of_def)

lemma AgentPersonality_roundtrip: "AgentPersonality_of (AgentPersonality_value x) = Some x"
  by (cases x) (simp_all add: AgentPersonality_of_def)

lemma ChatRole_roundtrip: "ChatRole_of (ChatRole_value x) = Some x"
  by (cases x) (simp_all add: ChatRole_of_def)

lemma parse_dna_stringify: "parse_dna (stringify_dna d) = Some d"
  by (simp add: parse_dna_def stringify_dna_def string_property_def)

lemma parse_message_stringify:
  assumes "finite_message m"
  shows "parse_message (stringify_message m) = Some m"
proof -
  obtain r where r: "timestamp m = Finite r"
    using assms by (cases "timestamp m") (simp_all add: finite_message_def)
  show ?thesis
    by (cases "senderName m"; cases "personality m")
       (simp_all add: parse_message_def stringify_message_def string_property_def
          number_property_def json_of_number_def optional_property_def
          optional_string_property_def optional_personality_def r
          ChatRole_roundtrip AgentPersonality_roundtrip)
qed

lemma those_map_roundtrip:
  assumes "\<And>x. x \<in> set xs \<Longrightarrow> g (f x) = Some x"
  shows "those (map (g \<circ> f) xs) = Some xs"
  using assms by (induction xs) simp_all

lemma parse_messages_stringify:
  assumes "list_all finite_message ms"
  shows "parse_messages (Some (JArray (map stringify_message ms))) = Some ms"
  unfolding parse_messages_def using assms
  by (simp add: those_map_roundtrip parse_message_stringify list_all_iff)

lemma parse_task_stringify:
  assumes "finite_task t"
  shows "parse_task (stringify_task t) = Some t"
proof -
  obtain r where r: "estimatedMinutes t = Finite r"
    using assms by (cases "estimatedMinutes t") (simp_all add: finite_task_def)
  have ms: "parse_messages (Some (JArray (map stringify_message (chatHistory t)))) = Some (chatHistory t)"
    using assms by (simp add: parse_messages_stringify finite_task_def)
  show ?thesis
    by (cases "visualCode t"; cases "content t")
       (simp_all add: parse_task_def stringify_task_def string_property_def
          number_property_def json_of_number_def optional_property_def
          optional_string_property_def r ms
          AgentType_roundtrip TaskStatus_roundtrip VerificationStatus_roundtrip)
qed

text \<open>
  Claim C7, as amended. For every DNA and every task list in which each estimated-minutes
  value and each chat timestamp is a finite number, reading back the serialized
  \<^verbatim>\<open>{ dna, tasks }\<close> gives the same DNA and the same tasks: the six DNA strings and, per task,
  id, title, description, estimated minutes, status, verification status, agent type, content,
  visual code and the whole chat history. The load effect, run on a storage that holds this
  record, puts exactly that DNA and those tasks into the state. (A number that is not finite
  is written as \<^verbatim>\<open>null\<close> and is not restored.)
\<close>

theorem persisted_roundtrip:
  assumes "list_all finite_task ts"
  shows "parse_state (stringify_state d ts) = Some (d, ts)
       \<and> loadSaved (s\<lparr>localStorage := persist d ts (localStorage s)\<rparr>) =
           Some (s\<lparr>localStorage := persist d ts (localStorage s), dna := d, tasks := ts,
                    appState := (if ts \<noteq> [] then DASHBOARD else appState s)\<rparr>)"
proof -
  have "those (map (parse_task \<circ> stringify_task) ts) = Some ts"
    using assms by (intro those_map_roundtrip parse_task_stringify) (simp add: list_all_iff)
  then have rt: "parse_state (stringify_state d ts) = Some (d, ts)"
    by (simp add: parse_state_def stringify_state_def parse_tasks_def parse_dna_stringify)
  then show ?thesis
    by (simp add: loadSaved_def persist_def)
qed

subsection \<open>Concrete runs\<close>

lemma clean_two: "cleanJson two_task_text = two_task_text"
  by (simp add: two_task_text_def cleanJson_def trim_def is_ws_def indexOf_def lastIndexOf_def
      substring_def)

lemma clean_overflow: "cleanJson overflow_text = overflow_text"
  by (simp add: overflow_text_def cleanJson_def trim_def is_ws_def indexOf_def lastIndexOf_def
      substring_def)

lemma clean_refusal: "cleanJson ''I cannot help.'' = ''I cannot help.''"
  by (simp add: cleanJson_def trim_def is_ws_def indexOf_def lastIndexOf_def)

lemma two_task_generated:
  "generatePlan two_task_parse (Responded (Some two_task_text)) = Inr (PlanArray two_task_plan)"
proof -
  have "two_task_text \<noteq> []"
    by (simp add: two_task_text_def)
  then show ?thesis
    by (simp add: generatePlan_def truthy_def text_of_def clean_two two_task_parse_def)
qed

lemma two_task_materialized:
  "materialize two_uuids two_task_plan =
     [materializeTask (two_task_plan ! 0) ''a'', materializeTask (two_task_plan ! 1) ''b'']"
  by (simp add: materialize_def two_task_plan_def two_uuids_def)

lemma two_task_launch_tasks:
  "tasks (run [two_task_launch] initialState) =
     [(materializeTask (two_task_plan ! 0) ''a'')\<lparr>content := Some ''draft a'', status := IN_PROGRESS\<rparr>,
      materializeTask (two_task_plan ! 1) ''b'']"
  and two_task_launch_pointer: "currentTaskId (run [two_task_launch] initialState) = Some ''a''"
  and two_task_launch_editor: "editorContent (run [two_task_launch] initialState) = ''draft a''"
  and two_task_launch_dna: "dna (run [two_task_launch] initialState) = emptyDNA"
  and two_task_launch_view: "appState (run [two_task_launch] initialState) = WORKING"
  by (simp_all add: run_def two_task_launch_def handleLaunch_def two_task_generated
      two_task_materialized enterTask_def truthy_def text_of_def initialState_def Let_def
      materializeTask_def applyDraft_def)


lemma overflow_generated:
  "generatePlan overflow_parse (Responded (Some overflow_text)) = Inr (PlanArray overflow_plan)"
proof -
  have "overflow_text \<noteq> []"
    by (simp add: overflow_text_def)
  then show ?thesis
    by (simp add: generatePlan_def truthy_def text_of_def clean_overflow overflow_parse_def)
qed

lemma overflow_launch_tasks:
  "tasks (run [overflow_launch] initialState) =
     [(materializeTask (overflow_plan ! 0) ''a'')\<lparr>content := Some ''draft a'', status := IN_PROGRESS\<rparr>]"
  by (simp add: run_def overflow_launch_def handleLaunch_def overflow_generated
      materialize_def overflow_plan_def two_uuids_def enterTask_def truthy_def text_of_def
      initialState_def Let_def materializeTask_def applyDraft_def)

text \<open>The round trip of claim C7 at the state reached by launching the two-task plan.\<close>

theorem persisted_roundtrip_witness:
  "list_all finite_task (tasks (run [two_task_launch] initialState))
   \<and> parse_state (stringify_state (dna (run [two_task_launch] initialState))
                     (tasks (run [two_task_launch] initialState)))
      = Some (dna (run [two_task_launch] initialState), tasks (run [two_task_launch] initialState))"
proof -
  have fin: "list_all finite_task (tasks (run [two_task_launch] initialState))"
    by (simp add: two_task_launch_tasks finite_task_def materializeTask_def two_task_plan_def)
  show ?thesis
    using fin persisted_roundtrip [OF fin] by simp
qed

text \<open>
  Claim C7 as stated fails: launching with an answer whose estimated minutes overflow to
  \<^verbatim>\<open>Infinity\<close> reaches a state whose \<^verbatim>\<open>{ dna, tasks }\<close> is not read back as it was written.
\<close>

theorem persisted_roundtrip_overflow:
  "estimatedMinutes (hd (tasks (run [overflow_launch] initialState))) = PosInfinity
   \<and> parse_state (stringify_state (dna (run [overflow_launch] initialState))
                     (tasks (run [overflow_launch] initialState)))
      \<noteq> Some (dna (run [overflow_launch] initialState), tasks (run [overflow_launch] initialState))"
  unfolding overflow_launch_tasks
  by (simp add: parse_state_def stringify_state_def parse_tasks_def parse_task_def stringify_task_def
      string_property_def number_property_def json_of_number_def optional_property_def
      parse_dna_stringify materializeTask_def overflow_plan_def)

text \<open>Claim C9 at the state reached by launching the two-task plan, for an id no task has.\<close>

theorem enterTask_unknown_id_witness:
  "''zzz'' \<notin> task_id ` set (tasks (run [two_task_launch] initialState))
   \<and> appState (enterTask ''zzz'' (tasks (run [two_task_launch] initialState)) (Inr ''d'')
        (run [two_task_launch] initialState)) = WORKING
   \<and> currentTaskId (enterTask ''zzz'' (tasks (run [two_task_launch] initialState)) (Inr ''d'')
        (run [two_task_launch] initialState)) = Some ''a''
   \<and> editorContent (enterTask ''zzz'' (tasks (run [two_task_launch] initialState)) (Inr ''d'')
        (run [two_task_launch] initialState)) = ''draft a''"
proof -
  have unknown: "''zzz'' \<notin> task_id ` set (tasks (run [two_task_launch] initialState))"
    by (simp add: two_task_launch_tasks materializeTask_def)
  show ?thesis
    using unknown enterTask_unknown_id [OF unknown, of "Inr ''d''"]
    by (simp add: two_task_launch_view two_task_launch_pointer two_task_launch_editor)
qed


text \<open>Claim C5 at an answer that is not JSON.\<close>

theorem plan_failure_propagates_witness:
  "truthy (Some ''I cannot help.'')
   \<and> two_task_parse (cleanJson (text_of (Some ''I cannot help.''))) = Inl SyntaxError
   \<and> generatePlan two_task_parse (Responded (Some ''I cannot help.'')) = Inl SyntaxError
   \<and> tasks (handleLaunch two_task_parse (Responded (Some ''I cannot help.'')) two_uuids (Inr ''d'')
              initialState) = []
   \<and> alerts (handleLaunch two_task_parse (Responded (Some ''I cannot help.'')) two_uuids (Inr ''d'')
              initialState) = [''Mission Generation Failed. Please Retry.'']"
proof -
  have t: "truthy (Some ''I cannot help.'')"
    by (simp add: truthy_def)
  have p: "two_task_parse (cleanJson (text_of (Some ''I cannot help.''))) = Inl SyntaxError"
    by (simp add: text_of_def clean_refusal two_task_parse_def two_task_text_def)
  show ?thesis
    using t p
      plan_failure_propagates [where JSON_parse = two_task_parse and t = "Some ''I cannot help.''"
        and e = SyntaxError and e' = SyntaxError and resp = "Responded (Some ''I cannot help.'')"
        and randomUUID = two_uuids and draft = "Inr ''d''" and s = initialState]
    by (simp add: initialState_def)
qed

subsection \<open>DNA synthesis\<close>

text \<open>
  Claim C8, as amended. When the synthesis call raises, or when \<^verbatim>\<open>JSON.parse\<close> raises on the
  cleaned answer, \<^verbatim>\<open>synthesizeDNA\<close> returns the fallback object: audience \<^verbatim>\<open>General Audience\<close>,
  problem \<^verbatim>\<open>Undefined Problem\<close>, tone \<^verbatim>\<open>Professional\<close>, anti-goals \<^verbatim>\<open>Generic content\<close>, stakes
  \<^verbatim>\<open>High\<close>, all non-empty, with the given raw context. When the answer parses, the result is the
  parsed value's own properties with \<^verbatim>\<open>rawContext\<close> set to the given raw context: the five
  fields are whatever the collaborator returned, and nothing checks that they are present or
  non-empty.
\<close>

theorem synthesizeDNA_fallback:
  "synthesizeDNA JSON_parse (CallFailed e) history raw = fallbackDNA raw
   \<and> (JSON_parse (cleanJson (if truthy t then text_of t else ''{}'')) = Inl e' \<longrightarrow>
        synthesizeDNA JSON_parse (Responded t) history raw = fallbackDNA raw)
   \<and> (JSON_parse (cleanJson (if truthy t then text_of t else ''{}'')) = Inr parsed \<longrightarrow>
        synthesizeDNA JSON_parse (Responded t) history raw =
          set_property (spread parsed) ''rawContext'' (JString raw))
   \<and> parse_dna (JObject (fallbackDNA raw)) =
        Some \<lparr>audience = ''General Audience'', problem = ''Undefined Problem'', tone = ''Professional'',
              antiGoals = ''Generic content'', stakes = ''High'', rawContext = raw\<rparr>
   \<and> nonempty_property (fallbackDNA raw) ''audience''
   \<and> nonempty_property (fallbackDNA raw) ''problem''
   \<and> nonempty_property (fallbackDNA raw) ''tone''
   \<and> nonempty_property (fallbackDNA raw) ''antiGoals''
   \<and> nonempty_property (fallbackDNA raw) ''stakes''"
  by (simp add: synthesizeDNA_def fallbackDNA_def parse_dna_def string_property_def
      nonempty_property_def)

text \<open>The theorem at a transcript of three answers and an answer that is not JSON.\<close>

theorem synthesizeDNA_fallback_witness:
  "parse_empty_object (cleanJson (if truthy (Some ''I cannot help.'') then text_of (Some ''I cannot help.'')
       else ''{}'')) = Inl SyntaxError
   \<and> synthesizeDNA parse_empty_object (Responded (Some ''I cannot help.'')) three_answers ''notes''
       = fallbackDNA ''notes''"
proof -
  have p: "parse_empty_object (cleanJson (if truthy (Some ''I cannot help.'')
             then text_of (Some ''I cannot help.'') else ''{}'')) = Inl SyntaxError"
    by (simp add: parse_empty_object_def truthy_def text_of_def clean_refusal)
  show ?thesis
    using p synthesizeDNA_fallback [where JSON_parse = parse_empty_object
        and t = "Some ''I cannot help.''" and e' = SyntaxError and history = three_answers
        and raw = "''notes''"]
    by simp
qed

text \<open>
  Claim C8 as stated fails: for an answer without text, and for the answer \<^verbatim>\<open>{}\<close>, the result
  has the raw context only; its audience is not a non-empty string, and no fallback is used.
\<close>

theorem synthesizeDNA_empty_answer:
  "synthesizeDNA parse_empty_object (Responded None) three_answers ''notes''
     = [(''rawContext'', JString ''notes'')]
   \<and> synthesizeDNA parse_empty_object (Responded (Some ''{}'')) three_answers ''notes''
     = [(''rawContext'', JString ''notes'')]
   \<and> \<not> nonempty_property
         (synthesizeDNA parse_empty_object (Responded None) three_answers ''notes'') ''audience''"
  by (simp add: synthesizeDNA_def parse_empty_object_def truthy_def text_of_def cleanJson_def trim_def
      is_ws_def indexOf_def lastIndexOf_def substring_def spread_def nonempty_property_def)

subsection \<open>Tasks in progress along a run\<close>

lemma in_progress_ids_Nil [simp]: "in_progress_ids [] = {}"
  by (simp add: in_progress_ids_def)

lemma in_progress_ids_Cons [simp]:
  "in_progress_ids (t # ts) =
     (if status t = IN_PROGRESS then insert (task_id t) (in_progress_ids ts) else in_progress_ids ts)"
  by (simp add: in_progress_ids_def)

lemma in_progress_ids_flushContent [simp]:
  "in_progress_ids (flushContent p e ts) = in_progress_ids ts"
  by (induction ts) (simp_all add: flushContent_def)



lemma in_progress_ids_materialize [simp]: "in_progress_ids (materialize u plan) = {}"
  by (auto simp add: in_progress_ids_def materialize_def materializeTask_def filter_empty_conv)













end
